theory Spec2Isabelle
  imports Main "HOL-Library.Word"
begin

section \<open>Data model of package osm\<close>

text \<open>
  Identifiers are Go \<open>int64\<close>. Coordinates are Go \<open>float64\<close>; the importer never
  computes with them, it only copies them and reads their zero value, so the embedding
  is parametric in the coordinate type \<open>'c\<close> and asks only for a zero.
\<close>

type_synonym int64 = "64 word"

text \<open>\<open>geo.Point\<close> and \<open>geo.NewPoint(lat, lng)\<close>.\<close>

record 'c Point =
  lat :: 'c
  lng :: 'c

definition NewPoint :: "'c \<Rightarrow> 'c \<Rightarrow> 'c Point" where
  "NewPoint la lo = \<lparr>lat = la, lng = lo\<rparr>"

text \<open>\<open>geo.Polygon\<close> holds the slice of points it was built from; \<open>Points()\<close> returns it.\<close>

type_synonym 'c Polygon = "'c Point list"

definition NewPolygon :: "'c Point list \<Rightarrow> 'c Polygon" where
  "NewPolygon points = points"

definition Points :: "'c Polygon \<Rightarrow> 'c Point list" where
  "Points p = p"

text \<open>
  The records of \<open>gosmparse\<close>, with the fields the importer reads. A tag map is a Go
  \<open>map[string]string\<close>; two records cannot share a field name, hence the prefixes.
\<close>

type_synonym Tags = "string \<rightharpoonup> string"

record 'c Node =
  Lat :: 'c
  Lon :: 'c

record Way =
  way_Tags :: Tags
  NodeIDs :: "int64 list"

datatype MemberType = NodeType | WayType | RelationType

record RelationMember =
  member_ID :: int64
  member_Type :: MemberType
  Role :: string

record Relation =
  rel_Tags :: Tags
  Members :: "RelationMember list"

text \<open>
  \<open>handler.Handler\<close>, the accumulator filled by the parser. Its declaration is in
  package \<open>osm/handler\<close>; the importer uses \<open>Nodes\<close> and \<open>FullWays\<close> as maps from
  identifiers to values (the two-result lookup \<open>node, ok := Nodes[id]\<close>) and ranges over
  \<open>Countries\<close>, \<open>Areas\<close> and \<open>Districts\<close>, which are given here in the order the
  \<open>range\<close> loops visit them.
\<close>

record 'c Handler =
  Nodes :: "int64 \<rightharpoonup> 'c Node"
  FullWays :: "int64 \<rightharpoonup> Way"
  Countries :: "Relation list"
  Areas :: "Relation list"
  Districts :: "Way list"

text \<open>Reading a Go map at an absent key yields the zero value of the element type.\<close>

definition tag :: "Tags \<Rightarrow> string \<Rightarrow> string" where
  "tag t k = (case t k of Some v \<Rightarrow> v | None \<Rightarrow> [])"

definition zero_Node :: "'c::zero Node" where
  "zero_Node = \<lparr>Lat = 0, Lon = 0\<rparr>"

definition zero_Way :: Way where
  "zero_Way = \<lparr>way_Tags = Map.empty, NodeIDs = []\<rparr>"

definition Nodes_at :: "'c::zero Handler \<Rightarrow> int64 \<Rightarrow> 'c Node" where
  "Nodes_at h nodeID = (case Nodes h nodeID of Some node \<Rightarrow> node | None \<Rightarrow> zero_Node)"

definition FullWays_at :: "'c Handler \<Rightarrow> int64 \<Rightarrow> Way" where
  "FullWays_at h wayID = (case FullWays h wayID of Some way \<Rightarrow> way | None \<Rightarrow> zero_Way)"

section \<open>Polygon assembly\<close>

text \<open>
  The loop shared by \<open>wayToPolygon\<close> and the path branch of \<open>relationToPolygon\<close>:
  \<^verbatim>\<open>for _, nodeID := range way.NodeIDs {
      node := i.handler.Nodes[nodeID]
      points = append(points, geo.NewPoint(node.Lat, node.Lon)) }\<close>
\<close>

fun append_way_nodes :: "'c::zero Handler \<Rightarrow> int64 list \<Rightarrow> 'c Point list \<Rightarrow> 'c Point list" where
  "append_way_nodes h [] points = points"
| "append_way_nodes h (nodeID # rest) points =
     (let node = Nodes_at h nodeID
      in append_way_nodes h rest (points @ [NewPoint (Lat node) (Lon node)]))"

definition wayToPolygon :: "'c::zero Handler \<Rightarrow> Way \<Rightarrow> 'c Polygon" where
  "wayToPolygon h way = NewPolygon (append_way_nodes h (NodeIDs way) [])"

text \<open>
  \<open>relationToPolygon\<close>: a member found in \<open>Nodes\<close> appends its point; otherwise the
  member's identifier is read in \<open>FullWays\<close> and that way's nodes are appended.
\<close>

fun relationToPolygon_loop ::
  "'c::zero Handler \<Rightarrow> RelationMember list \<Rightarrow> 'c Point list \<Rightarrow> 'c Point list" where
  "relationToPolygon_loop h [] points = points"
| "relationToPolygon_loop h (member # rest) points =
     (case Nodes h (member_ID member) of
        Some node \<Rightarrow> relationToPolygon_loop h rest (points @ [NewPoint (Lat node) (Lon node)])
      | None \<Rightarrow>
          (let way = FullWays_at h (member_ID member)
           in relationToPolygon_loop h rest (append_way_nodes h (NodeIDs way) points)))"

definition relationToPolygon :: "'c::zero Handler \<Rightarrow> Relation \<Rightarrow> 'c Polygon" where
  "relationToPolygon h area = NewPolygon (relationToPolygon_loop h (Members area) [])"

text \<open>
  The specification's reading of polygon assembly, written from its words for comparison
  with the code: the point sequence a single member resolves to.
\<close>

definition node_point :: "'c::zero Handler \<Rightarrow> int64 \<Rightarrow> 'c Point" where
  "node_point h nodeID = NewPoint (Lat (Nodes_at h nodeID)) (Lon (Nodes_at h nodeID))"

definition spec_member_points :: "'c::zero Handler \<Rightarrow> RelationMember \<Rightarrow> 'c Point list" where
  "spec_member_points h member =
     (case Nodes h (member_ID member) of
        Some node \<Rightarrow> [NewPoint (Lat node) (Lon node)]
      | None \<Rightarrow>
          (case FullWays h (member_ID member) of
             Some way \<Rightarrow> map (node_point h) (NodeIDs way)
           | None \<Rightarrow> []))"

section \<open>The hierarchy and the importer's state\<close>

record 'c district =
  district_name :: string
  district_geom :: "'c Polygon"

record 'c city =
  city_name :: string
  placeType :: string
  city_geom :: "'c Polygon"
  districts :: "'c district list"

record 'c country =
  country_name :: string
  towns :: "'c city list"
  country_geom :: "'c Polygon"

text \<open>\<open>config.Ariadna\<close>: the one field the builder reads.\<close>

record Ariadna =
  ImportCountry :: string

text \<open>
  What the importer calls outside this package, taken as parameters:
  \<open>geo.Polygon.Contains\<close>, a total boolean test of the geometry library; the \<open>%v\<close>
  rendering of a \<open>float64\<close> by \<open>fmt.Sprintf\<close>; and whether \<open>os.Create\<close> of a file
  name returns an error.
\<close>

record 'c World =
  Contains :: "'c Polygon \<Rightarrow> 'c Point \<Rightarrow> bool"
  Sprint_v :: "'c \<Rightarrow> string"
  Create_fails :: "string \<Rightarrow> bool"

text \<open>The calls made on the file system, in the order they are made.\<close>

datatype fs_call = os_Create string | File_Write string string | File_Close string

text \<open>
  \<open>errgroup.Group\<close>: a wait-group counter, and an error slot written once. The three
  push tasks are methods of the importer defined in other files of the package; only the
  error each one returns matters here.
\<close>

type_synonym error = string

datatype task = crossRoadsToElastic | nodesToElastic | waysToElastic

record Group =
  wg :: nat
  errOnce :: bool
  err :: "error option"

text \<open>
  The importer: the hierarchy built so far, its error group and the goroutines the group
  has started that have not returned yet, the file-system calls and the log lines issued.
\<close>

record 'c Importer =
  countries :: "'c country list"
  eg :: Group
  goroutines :: "task list"
  fs_calls :: "fs_call list"
  logged :: "string list"

text \<open>
  The two ways the build stops the process: a slice read out of range (a Go panic) and
  \<open>log.Fatal\<close>.
\<close>

datatype fault = index_out_of_range | log_Fatal

section \<open>Tree construction\<close>

text \<open>\<open>polygon.Points()[1]\<close>: Go panics when the slice has fewer than two elements.\<close>

definition Points_1 :: "'c Polygon \<Rightarrow> fault + 'c Point" where
  "Points_1 p = (if 1 < length (Points p) then Inr (Points p ! 1) else Inl index_out_of_range)"

text \<open>
  \<^verbatim>\<open>for _, dist := range i.handler.Districts {
      districtPolygon := i.wayToPolygon(dist)
      if areaPolygon.Contains(districtPolygon.Points()[1]) {
          d := district{name: dist.Tags["name"], geom: districtPolygon}
          city.districts = append(city.districts, d) } }\<close>
\<close>

fun districts_loop ::
  "'c::zero World \<Rightarrow> 'c Handler \<Rightarrow> 'c Polygon \<Rightarrow> Way list \<Rightarrow> 'c city \<Rightarrow> fault + 'c city" where
  "districts_loop w h areaPolygon [] city = Inr city"
| "districts_loop w h areaPolygon (dist # rest) city =
     (let districtPolygon = wayToPolygon h dist
      in case Points_1 districtPolygon of
           Inl e \<Rightarrow> Inl e
         | Inr p \<Rightarrow>
             if Contains w areaPolygon p
             then let d = \<lparr>district_name = tag (way_Tags dist) ''name'',
                           district_geom = districtPolygon\<rparr>
                  in districts_loop w h areaPolygon rest
                       (city\<lparr>districts := districts city @ [d]\<rparr>)
             else districts_loop w h areaPolygon rest city)"

text \<open>The loop over \<open>i.handler.Areas\<close>, lines 128 to 146.\<close>

fun areas_loop ::
  "'c::zero World \<Rightarrow> 'c Handler \<Rightarrow> 'c Polygon \<Rightarrow> Relation list \<Rightarrow> 'c country
     \<Rightarrow> fault + 'c country" where
  "areas_loop w h countryPolygon [] c = Inr c"
| "areas_loop w h countryPolygon (area # rest) c =
     (let areaPolygon = relationToPolygon h area;
          city = \<lparr>city_name = tag (rel_Tags area) ''name'',
                  placeType = tag (rel_Tags area) ''place'',
                  city_geom = areaPolygon,
                  districts = []\<rparr>
      in case districts_loop w h areaPolygon (Districts h) city of
           Inl e \<Rightarrow> Inl e
         | Inr city' \<Rightarrow>
             (case Points_1 areaPolygon of
                Inl e \<Rightarrow> Inl e
              | Inr p \<Rightarrow>
                  if Contains w countryPolygon p
                  then areas_loop w h countryPolygon rest (c\<lparr>towns := towns c @ [city']\<rparr>)
                  else areas_loop w h countryPolygon rest c))"

text \<open>
  The debug export, lines 120 to 122: one \<open>f.Write\<close> per point of the polygon, of
  \<open>fmt.Sprintf("%v,%v\n", point.Lng(), point.Lat())\<close>. The result of \<open>Write\<close> is
  not looked at.
\<close>

definition export_line :: "'c World \<Rightarrow> 'c Point \<Rightarrow> string" where
  "export_line w point = Sprint_v w (lng point) @ '','' @ Sprint_v w (lat point) @ [CHR 0x0A]"

fun write_points :: "'c World \<Rightarrow> string \<Rightarrow> 'c Point list \<Rightarrow> fs_call list \<Rightarrow> fs_call list" where
  "write_points w f [] calls = calls"
| "write_points w f (point # rest) calls =
     write_points w f rest (calls @ [File_Write f (export_line w point)])"

text \<open>The loop over \<open>i.handler.Countries\<close>, lines 110 to 149.\<close>

fun countries_loop ::
  "'c::zero World \<Rightarrow> 'c Handler \<Rightarrow> Ariadna \<Rightarrow> Relation list \<Rightarrow> 'c Importer
     \<Rightarrow> fault + 'c Importer" where
  "countries_loop w h cfg [] i = Inr i"
| "countries_loop w h cfg (cn # rest) i =
     (if tag (rel_Tags cn) ''name'' \<noteq> ImportCountry cfg
      then countries_loop w h cfg rest i
      else
        let countryPolygon = relationToPolygon h cn;
            f = tag (rel_Tags cn) ''name''
        in if Create_fails w f then Inl log_Fatal
           else
             let calls = write_points w f (Points countryPolygon) (fs_calls i @ [os_Create f]);
                 i1 = i\<lparr>fs_calls := calls @ [File_Close f]\<rparr>;
                 c = \<lparr>country_name = tag (rel_Tags cn) ''name'',
                      towns = [],
                      country_geom = countryPolygon\<rparr>
             in case areas_loop w h countryPolygon (Areas h) c of
                  Inl e \<Rightarrow> Inl e
                | Inr c' \<Rightarrow>
                    countries_loop w h cfg rest (i1\<lparr>countries := countries i1 @ [c']\<rparr>))"

definition areasToPolygons ::
  "'c::zero World \<Rightarrow> 'c Handler \<Rightarrow> Ariadna \<Rightarrow> 'c Importer \<Rightarrow> fault + 'c Importer" where
  "areasToPolygons w h cfg i =
     (let i0 = i\<lparr>logged := logged i @ [''started to build country index'']\<rparr>
      in case countries_loop w h cfg (Countries h) i0 of
           Inl e \<Rightarrow> Inl e
         | Inr i1 \<Rightarrow> Inr (i1\<lparr>logged := logged i1 @ [''finished to build country index'']\<rparr>))"

text \<open>
  Closed forms of what the loops build, following the specification's description of the
  hierarchy: the district and the settlement made from an accumulator entry, and the
  calls of one country's debug export.
\<close>

definition spec_district :: "'c::zero Handler \<Rightarrow> Way \<Rightarrow> 'c district" where
  "spec_district h dist =
     \<lparr>district_name = tag (way_Tags dist) ''name'', district_geom = wayToPolygon h dist\<rparr>"

definition spec_city :: "'c::zero World \<Rightarrow> 'c Handler \<Rightarrow> Relation \<Rightarrow> 'c city" where
  "spec_city w h area =
     \<lparr>city_name = tag (rel_Tags area) ''name'',
      placeType = tag (rel_Tags area) ''place'',
      city_geom = relationToPolygon h area,
      districts = map (spec_district h)
        (filter (\<lambda>dist. Contains w (relationToPolygon h area) (Points (wayToPolygon h dist) ! 1))
           (Districts h))\<rparr>"

definition spec_country :: "'c::zero World \<Rightarrow> 'c Handler \<Rightarrow> Relation \<Rightarrow> 'c country" where
  "spec_country w h cn =
     \<lparr>country_name = tag (rel_Tags cn) ''name'',
      towns = map (spec_city w h)
        (filter (\<lambda>area. Contains w (relationToPolygon h cn) (Points (relationToPolygon h area) ! 1))
           (Areas h)),
      country_geom = relationToPolygon h cn\<rparr>"

definition spec_export :: "'c World \<Rightarrow> string \<Rightarrow> 'c Polygon \<Rightarrow> fs_call list" where
  "spec_export w f p =
     os_Create f # map (\<lambda>point. File_Write f (export_line w point)) (Points p) @ [File_Close f]"

text \<open>
  The files that a sequence of calls leaves behind, from the files before it:
  \<open>os.Create\<close> creates the named file or truncates it, a \<open>Write\<close> appends to it.
\<close>

type_synonym files = "string \<rightharpoonup> string"

fun fs_apply :: "fs_call \<Rightarrow> files \<Rightarrow> files" where
  "fs_apply (os_Create f) m = m(f \<mapsto> [])"
| "fs_apply (File_Write f bytes) m = m(f \<mapsto> (case m f of Some old \<Rightarrow> old | None \<Rightarrow> []) @ bytes)"
| "fs_apply (File_Close f) m = m"

fun fs_replay :: "fs_call list \<Rightarrow> files \<Rightarrow> files" where
  "fs_replay [] m = m"
| "fs_replay (call # rest) m = fs_replay rest (fs_apply call m)"

text \<open>The file names given to \<open>os.Create\<close>, in call order.\<close>

fun created :: "fs_call list \<Rightarrow> string list" where
  "created [] = []"
| "created (os_Create f # rest) = f # created rest"
| "created (call # rest) = created rest"

text \<open>The content of a country's debug file as the specification describes it.\<close>

definition spec_file :: "'c World \<Rightarrow> 'c Polygon \<Rightarrow> string" where
  "spec_file w p = concat (map (export_line w) (Points p))"

definition imported :: "Ariadna \<Rightarrow> Relation \<Rightarrow> bool" where
  "imported cfg cn = (tag (rel_Tags cn) ''name'' = ImportCountry cfg)"

text \<open>The countries a run has added to the importer.\<close>

definition added :: "'c Importer \<Rightarrow> 'c Importer \<Rightarrow> 'c country list" where
  "added i i' = drop (length (countries i)) (countries i')"

text \<open>A polygon whose second point can be read.\<close>

definition two_points :: "'c Polygon \<Rightarrow> bool" where
  "two_points p = (1 < length (Points p))"

section \<open>The indexing pipeline\<close>

text \<open>
  \<open>eg.Go(f)\<close> adds one to the wait group and starts a goroutine running \<open>f\<close>. When
  \<open>f\<close> returns, the goroutine stores a non-nil error through \<open>errOnce\<close> (so only the
  first one is kept) and calls \<open>wg.Done()\<close>. The goroutines run concurrently; a run is
  described by the order in which they return.
\<close>

definition fresh_Group :: Group where
  "fresh_Group = \<lparr>wg = 0, errOnce = False, err = None\<rparr>"

definition Go :: "task \<Rightarrow> 'c Importer \<Rightarrow> 'c Importer" where
  "Go f i = i\<lparr>eg := (eg i)\<lparr>wg := wg (eg i) + 1\<rparr>, goroutines := goroutines i @ [f]\<rparr>"

definition goroutine_returns :: "(task \<Rightarrow> error option) \<Rightarrow> task \<Rightarrow> 'c Importer \<Rightarrow> 'c Importer" where
  "goroutine_returns result f i =
     (if f \<in> set (goroutines i)
      then let g = eg i;
               g1 = (case result f of
                       Some e \<Rightarrow> if errOnce g then g else g\<lparr>errOnce := True, err := Some e\<rparr>
                     | None \<Rightarrow> g)
           in i\<lparr>eg := g1\<lparr>wg := wg g1 - 1\<rparr>, goroutines := remove1 f (goroutines i)\<rparr>
      else i)"

fun returns_in_order :: "(task \<Rightarrow> error option) \<Rightarrow> task list \<Rightarrow> 'c Importer \<Rightarrow> 'c Importer" where
  "returns_in_order result [] i = i"
| "returns_in_order result (f # rest) i =
     returns_in_order result rest (goroutine_returns result f i)"

text \<open>
  \<open>g.Wait()\<close> blocks while the counter is not zero, then returns the stored error;
  \<open>None\<close> stands for a call that has not returned. \<open>WaitStop\<close> calls it and has no
  result of its own.
\<close>

definition Wait :: "Group \<Rightarrow> error option option" where
  "Wait g = (if wg g = 0 then Some (err g) else None)"

definition WaitStop :: "'c Importer \<Rightarrow> unit option" where
  "WaitStop i = (case Wait (eg i) of None \<Rightarrow> None | Some e \<Rightarrow> Some ())"

text \<open>
  \<open>Start\<close>. The parser and the index client are other packages: the errors returned by
  \<open>parse\<close> and \<open>updateIndices\<close> are arguments, and \<open>h\<close> is the handler as the parser
  left it.
\<close>

definition Start ::
  "'c::zero World \<Rightarrow> 'c Handler \<Rightarrow> Ariadna \<Rightarrow> error option \<Rightarrow> error option \<Rightarrow> 'c Importer
     \<Rightarrow> fault + (error option \<times> 'c Importer)" where
  "Start w h cfg parse_err update_err i =
     (case parse_err of
        Some e \<Rightarrow> Inr (Some e, i)
      | None \<Rightarrow>
          (case update_err of
             Some e \<Rightarrow> Inr (Some e, i)
           | None \<Rightarrow>
               (case areasToPolygons w h cfg i of
                  Inl f \<Rightarrow> Inl f
                | Inr i1 \<Rightarrow>
                    Inr (None, Go waysToElastic (Go nodesToElastic (Go crossRoadsToElastic i1))))))"

text \<open>
  The group's counter counts the goroutines that have not returned, each task running at
  most once.
\<close>

definition group_inv :: "'c Importer \<Rightarrow> bool" where
  "group_inv i = (distinct (goroutines i) \<and> wg (eg i) = length (goroutines i))"

text \<open>The error the group keeps when the goroutines return in the given order.\<close>

definition first_error :: "(task \<Rightarrow> error option) \<Rightarrow> task list \<Rightarrow> error option" where
  "first_error result order =
     (case filter (\<lambda>f. result f \<noteq> None) order of [] \<Rightarrow> None | f # rest \<Rightarrow> result f)"

section \<open>Example data\<close>

text \<open>
  The examples use whole-number coordinates from 0 to 9, and the rings of their countries
  and settlements are axis-parallel rectangles. For these, a point-in-polygon test agrees
  with the bounding-box test below (false on fewer than three points), and \<open>%v\<close>
  prints one digit.
\<close>

definition box_contains :: "int Polygon \<Rightarrow> int Point \<Rightarrow> bool" where
  "box_contains ring p =
     (3 \<le> length ring \<and>
      list_ex (\<lambda>a. lat a \<le> lat p) ring \<and> list_ex (\<lambda>a. lat p \<le> lat a) ring \<and>
      list_ex (\<lambda>a. lng a \<le> lng p) ring \<and> list_ex (\<lambda>a. lng p \<le> lng a) ring)"

definition digit :: "int \<Rightarrow> string" where
  "digit n = (if 0 \<le> n \<and> n < 10 then [''0123456789'' ! nat n] else ''?'')"

definition ex_world :: "int World" where
  "ex_world = \<lparr>Contains = box_contains, Sprint_v = digit, Create_fails = (\<lambda>f. f = [])\<rparr>"


definition nd :: "int \<Rightarrow> int \<Rightarrow> int Node" where
  "nd la lo = \<lparr>Lat = la, Lon = lo\<rparr>"

definition named :: "string \<Rightarrow> Tags" where
  "named n = [''name'' \<mapsto> n]"

definition wayRef :: "int64 \<Rightarrow> RelationMember" where
  "wayRef k = \<lparr>member_ID = k, member_Type = WayType, Role = ''outer''\<rparr>"

definition pointRef :: "int64 \<Rightarrow> RelationMember" where
  "pointRef k = \<lparr>member_ID = k, member_Type = NodeType, Role = []\<rparr>"

definition ex_nodes :: "int64 \<rightharpoonup> int Node" where
  "ex_nodes = map_of
     [(1, nd 0 0), (2, nd 0 8), (3, nd 8 8), (4, nd 8 0),
      (5, nd 2 2), (6, nd 2 6), (7, nd 6 6), (8, nd 6 2),
      (9, nd 1 1), (10, nd 1 7), (11, nd 7 7), (12, nd 7 1),
      (13, nd 7 9), (14, nd 9 9), (15, nd 9 7),
      (16, nd 3 3), (17, nd 4 4), (18, nd 5 3),
      (19, nd 8 7)]"

definition ex_ways :: "int64 \<rightharpoonup> Way" where
  "ex_ways = map_of
     [(100, \<lparr>way_Tags = Map.empty, NodeIDs = [1, 2, 3, 4]\<rparr>),
      (101, \<lparr>way_Tags = Map.empty, NodeIDs = [6, 7, 8]\<rparr>),
      (102, \<lparr>way_Tags = Map.empty, NodeIDs = [9, 10, 11, 12]\<rparr>),
      (103, \<lparr>way_Tags = Map.empty, NodeIDs = [11, 13, 14, 15]\<rparr>),
      (104, \<lparr>way_Tags = Map.empty, NodeIDs = [6, 7]\<rparr>)]"

definition Freedonia :: Relation where
  "Freedonia = \<lparr>rel_Tags = named ''Freedonia'', Members = [wayRef 100]\<rparr>"

definition Sylvania :: Relation where
  "Sylvania = \<lparr>rel_Tags = named ''Sylvania'', Members = [wayRef 103]\<rparr>"

definition Oldtown :: Relation where
  "Oldtown = \<lparr>rel_Tags = (named ''Oldtown'')(''place'' \<mapsto> ''town''),
              Members = [pointRef 5, wayRef 101]\<rparr>"

definition Metro :: Relation where
  "Metro = \<lparr>rel_Tags = (named ''Metro'')(''place'' \<mapsto> ''city''), Members = [wayRef 102]\<rparr>"

definition Farside :: Relation where
  "Farside = \<lparr>rel_Tags = (named ''Farside'')(''place'' \<mapsto> ''village''), Members = [wayRef 103]\<rparr>"

definition Centre :: Way where
  "Centre = \<lparr>way_Tags = named ''Centre'', NodeIDs = [16, 17, 18]\<rparr>"

definition Corner :: Way where
  "Corner = \<lparr>way_Tags = named ''Corner'', NodeIDs = [11, 3, 19]\<rparr>"

definition Stub :: Way where
  "Stub = \<lparr>way_Tags = named ''Stub'', NodeIDs = [16]\<rparr>"

definition ex_handler :: "int Handler" where
  "ex_handler = \<lparr>Nodes = ex_nodes, FullWays = ex_ways,
                 Countries = [Sylvania, Freedonia],
                 Areas = [Oldtown, Metro, Farside],
                 Districts = [Centre, Corner]\<rparr>"

text \<open>
  Variations: a path with a reference to no node, paths and a relation with too few
  points, a relation made of a point and a two-point path, and a second boundary
  relation carrying the imported country's name.
\<close>

definition Broken :: Way where
  "Broken = \<lparr>way_Tags = named ''Broken'', NodeIDs = [16, 77, 18]\<rparr>"

definition Segment :: Way where
  "Segment = \<lparr>way_Tags = named ''Segment'', NodeIDs = [16, 17]\<rparr>"

definition Hamlet :: Relation where
  "Hamlet = \<lparr>rel_Tags = (named ''Hamlet'')(''place'' \<mapsto> ''hamlet''),
             Members = [pointRef 5, pointRef 7]\<rparr>"

definition Wedge :: Relation where
  "Wedge = \<lparr>rel_Tags = named ''Wedge'', Members = [pointRef 5, wayRef 104]\<rparr>"

definition Freedonia_islands :: Relation where
  "Freedonia_islands = \<lparr>rel_Tags = named ''Freedonia'', Members = [wayRef 103]\<rparr>"

definition ex_handler_stub :: "int Handler" where
  "ex_handler_stub = ex_handler\<lparr>Districts := [Centre, Stub]\<rparr>"

definition ex_handler_thin :: "int Handler" where
  "ex_handler_thin = ex_handler\<lparr>Areas := [Oldtown, Hamlet], Districts := [Centre, Segment]\<rparr>"


definition ex_handler_pair :: "int Handler" where
  "ex_handler_pair =
     ex_handler\<lparr>Countries := [Freedonia, Freedonia_islands], Areas := [], Districts := []\<rparr>"

definition ex_cfg :: Ariadna where
  "ex_cfg = \<lparr>ImportCountry = ''Freedonia''\<rparr>"

definition fresh_Importer :: "'c Importer" where
  "fresh_Importer = \<lparr>countries = [], eg = fresh_Group, goroutines = [], fs_calls = [], logged = []\<rparr>"

text \<open>The importer after the build over the example accumulator.\<close>

definition pt :: "int \<Rightarrow> int \<Rightarrow> int Point" where
  "pt la lo = \<lparr>lat = la, lng = lo\<rparr>"

definition ex_Centre :: "int district" where
  "ex_Centre = \<lparr>district_name = ''Centre'', district_geom = [pt 3 3, pt 4 4, pt 5 3]\<rparr>"

definition ex_Oldtown :: "int city" where
  "ex_Oldtown = \<lparr>city_name = ''Oldtown'', placeType = ''town'',
                 city_geom = [pt 2 2, pt 2 6, pt 6 6, pt 6 2], districts = [ex_Centre]\<rparr>"

definition ex_Metro :: "int city" where
  "ex_Metro = \<lparr>city_name = ''Metro'', placeType = ''city'',
               city_geom = [pt 1 1, pt 1 7, pt 7 7, pt 7 1], districts = [ex_Centre]\<rparr>"

definition ex_Freedonia :: "int country" where
  "ex_Freedonia = \<lparr>country_name = ''Freedonia'', towns = [ex_Oldtown, ex_Metro],
                   country_geom = [pt 0 0, pt 0 8, pt 8 8, pt 8 0]\<rparr>"

definition ex_built :: "int Importer" where
  "ex_built = \<lparr>countries = [ex_Freedonia], eg = fresh_Group, goroutines = [],
               fs_calls = [os_Create ''Freedonia'',
                           File_Write ''Freedonia'' (''0,0'' @ [CHR 0x0A]),
                           File_Write ''Freedonia'' (''8,0'' @ [CHR 0x0A]),
                           File_Write ''Freedonia'' (''8,8'' @ [CHR 0x0A]),
                           File_Write ''Freedonia'' (''0,8'' @ [CHR 0x0A]),
                           File_Close ''Freedonia''],
               logged = [''started to build country index'',
                         ''finished to build country index'']\<rparr>"

definition ex_result :: "task \<Rightarrow> error option" where
  "ex_result f = (if f = nodesToElastic then Some ''bulk push failed'' else None)"

definition all_succeed :: "task \<Rightarrow> error option" where
  "all_succeed f = None"

section \<open>Properties of polygon assembly\<close>

lemma append_way_nodes_map:
  "append_way_nodes h ids points = points @ map (node_point h) ids"
  by (induction ids arbitrary: points) (simp_all add: node_point_def Let_def)

lemma relationToPolygon_loop_concat:
  "relationToPolygon_loop h ms points = points @ concat (map (spec_member_points h) ms)"
proof (induction ms arbitrary: points)
  case Nil
  show ?case by simp
next
  case (Cons member rest)
  show ?case
  proof (cases "Nodes h (member_ID member)")
    case (Some node)
    then show ?thesis
      by (simp add: Cons.IH spec_member_points_def)
  next
    case None
    then show ?thesis
      by (cases "FullWays h (member_ID member)")
         (simp_all add: Cons.IH spec_member_points_def FullWays_at_def zero_Way_def
            append_way_nodes_map)
  qed
qed

text \<open>
  C10. The polygon of a path has exactly one point per node reference, in list order;
  a reference absent from the node collection contributes the zero point
  (latitude 0, longitude 0) and is not omitted.
\<close>

theorem wayToPolygon_one_point_per_reference:
  "length (Points (wayToPolygon h way)) = length (NodeIDs way) \<and>
   Points (wayToPolygon h way) =
     map (\<lambda>nodeID. case Nodes h nodeID of
                      Some node \<Rightarrow> \<lparr>lat = Lat node, lng = Lon node\<rparr>
                    | None \<Rightarrow> \<lparr>lat = 0, lng = 0\<rparr>) (NodeIDs way)"
proof -
  have pt: "node_point h = (\<lambda>nodeID. case Nodes h nodeID of
                      Some node \<Rightarrow> \<lparr>lat = Lat node, lng = Lon node\<rparr>
                    | None \<Rightarrow> \<lparr>lat = 0, lng = 0\<rparr>)"
    by (rule ext)
       (simp add: node_point_def Nodes_at_def zero_Node_def NewPoint_def split: option.splits)
  have "Points (wayToPolygon h way) = map (node_point h) (NodeIDs way)"
    by (simp add: wayToPolygon_def Points_def NewPolygon_def append_way_nodes_map)
  then show ?thesis
    by (simp add: pt)
qed

text \<open>
  C5. The polygon assembled from a boundary relation is the concatenation, in member
  order, of what each member resolves to: a member whose identifier is a known point
  gives that point; otherwise the identifier is looked up as a path and gives the path's
  points in path order; a member that is neither gives nothing. Nothing is re-ordered,
  closed or de-duplicated.
\<close>

theorem relationToPolygon_concat_members:
  "Points (relationToPolygon h area) = concat (map (spec_member_points h) (Members area))"
  by (simp add: relationToPolygon_def Points_def NewPolygon_def relationToPolygon_loop_concat)

section \<open>Properties of tree construction\<close>

lemma districts_loop_closed:
  "districts_loop w h areaPolygon ds city =
     (if list_all (\<lambda>dist. two_points (wayToPolygon h dist)) ds
      then Inr (city\<lparr>districts := districts city @ map (spec_district h)
             (filter (\<lambda>dist. Contains w areaPolygon (Points (wayToPolygon h dist) ! 1)) ds)\<rparr>)
      else Inl index_out_of_range)"
proof (induction ds arbitrary: city)
  case Nil
  show ?case by simp
next
  case (Cons dist rest)
  show ?case
    by (simp add: Cons.IH Let_def Points_1_def two_points_def spec_district_def)
qed

lemma areas_loop_closed:
  "areas_loop w h countryPolygon as c =
     (if as = [] \<or> (list_all (\<lambda>dist. two_points (wayToPolygon h dist)) (Districts h) \<and>
                     list_all (\<lambda>area. two_points (relationToPolygon h area)) as)
      then Inr (c\<lparr>towns := towns c @ map (spec_city w h)
             (filter (\<lambda>area. Contains w countryPolygon (Points (relationToPolygon h area) ! 1)) as)\<rparr>)
      else Inl index_out_of_range)"
proof (induction as arbitrary: c)
  case Nil
  show ?case by simp
next
  case (Cons area rest)
  show ?case
    by (simp add: Cons.IH Let_def Points_1_def two_points_def districts_loop_closed spec_city_def)
qed

lemma write_points_closed:
  "write_points w f ps calls = calls @ map (\<lambda>point. File_Write f (export_line w point)) ps"
  by (induction ps arbitrary: calls) simp_all


lemma countries_loop_Inr:
  "countries_loop w h cfg cns i = Inr i' \<Longrightarrow>
     countries i' = countries i @ map (spec_country w h) (filter (imported cfg) cns) \<and>
     fs_calls i' = fs_calls i @
       concat (map (\<lambda>cn. spec_export w (tag (rel_Tags cn) ''name'') (relationToPolygon h cn))
                 (filter (imported cfg) cns)) \<and>
     eg i' = eg i \<and> goroutines i' = goroutines i \<and> logged i' = logged i"
proof (induction cns arbitrary: i)
  case Nil
  then show ?case by simp
next
  case (Cons cn rest)
  show ?case
  proof (cases "imported cfg cn")
    case False
    with Cons.prems have "countries_loop w h cfg rest i = Inr i'"
      by (simp add: imported_def)
    from Cons.IH [OF this] False show ?thesis by simp
  next
    case True
    let ?p = "relationToPolygon h cn"
    let ?f = "tag (rel_Tags cn) ''name''"
    let ?c0 = "\<lparr>country_name = ?f, towns = [], country_geom = ?p\<rparr>"
    from True Cons.prems have ok: "\<not> Create_fails w ?f"
      by (auto simp: imported_def Let_def split: if_splits)
    from True Cons.prems ok obtain c' where
      c': "areas_loop w h ?p (Areas h) ?c0 = Inr c'"
      by (auto simp: imported_def Let_def split: sum.splits)
    have c'_eq: "c' = spec_country w h cn"
      using c' by (simp add: areas_loop_closed spec_country_def split: if_splits)
    let ?i1 = "i\<lparr>fs_calls := write_points w ?f (Points ?p) (fs_calls i @ [os_Create ?f])
                               @ [File_Close ?f]\<rparr>"
    from True Cons.prems ok c' have
      "countries_loop w h cfg rest (?i1\<lparr>countries := countries ?i1 @ [c']\<rparr>) = Inr i'"
      by (simp add: imported_def Let_def)
    from Cons.IH [OF this] True c'_eq show ?thesis
      by (simp add: write_points_closed spec_export_def)
  qed
qed

lemma countries_loop_ok:
  assumes "\<not> Create_fails w (ImportCountry cfg)"
    and "list_all (\<lambda>dist. two_points (wayToPolygon h dist)) (Districts h)"
    and "list_all (\<lambda>area. two_points (relationToPolygon h area)) (Areas h)"
  shows "\<exists>i'. countries_loop w h cfg cns i = Inr i'"
proof (induction cns arbitrary: i)
  case Nil
  show ?case by simp
next
  case (Cons cn rest)
  show ?case
  proof (cases "tag (rel_Tags cn) ''name'' = ImportCountry cfg")
    case False
    then show ?thesis using Cons.IH by simp
  next
    case True
    then show ?thesis
      using assms Cons.IH by (simp add: Let_def areas_loop_closed)
  qed
qed

lemma areasToPolygons_Inr:
  assumes "areasToPolygons w h cfg i = Inr i'"
  shows "countries i' = countries i @ map (spec_country w h) (filter (imported cfg) (Countries h))"
    and "fs_calls i' = fs_calls i @
       concat (map (\<lambda>cn. spec_export w (tag (rel_Tags cn) ''name'') (relationToPolygon h cn))
                 (filter (imported cfg) (Countries h)))"
    and "eg i' = eg i" and "goroutines i' = goroutines i"
proof -
  let ?i0 = "i\<lparr>logged := logged i @ [''started to build country index'']\<rparr>"
  from assms obtain i1 where
    i1: "countries_loop w h cfg (Countries h) ?i0 = Inr i1"
    and i': "i' = i1\<lparr>logged := logged i1 @ [''finished to build country index'']\<rparr>"
    by (auto simp: areasToPolygons_def Let_def split: sum.splits)
  from countries_loop_Inr [OF i1] i'
  show "countries i' = countries i @ map (spec_country w h) (filter (imported cfg) (Countries h))"
    and "fs_calls i' = fs_calls i @
       concat (map (\<lambda>cn. spec_export w (tag (rel_Tags cn) ''name'') (relationToPolygon h cn))
                 (filter (imported cfg) (Countries h)))"
    and "eg i' = eg i" and "goroutines i' = goroutines i"
    by simp_all
qed

lemma added_eq:
  assumes "areasToPolygons w h cfg i = Inr i'"
  shows "added i i' = map (spec_country w h) (filter (imported cfg) (Countries h))"
  using areasToPolygons_Inr(1) [OF assms] by (simp add: added_def)

lemma spec_city_mem_iff:
  assumes "area \<in> set as"
  shows "spec_city w h area \<in> set (map (spec_city w h)
            (filter (\<lambda>a. Contains w p (Points (relationToPolygon h a) ! 1)) as))
         \<longleftrightarrow> Contains w p (Points (relationToPolygon h area) ! 1)"
proof
  assume "spec_city w h area \<in> set (map (spec_city w h)
            (filter (\<lambda>a. Contains w p (Points (relationToPolygon h a) ! 1)) as))"
  then obtain a where a: "Contains w p (Points (relationToPolygon h a) ! 1)"
    and eq: "spec_city w h a = spec_city w h area"
    by auto
  from eq have "city_geom (spec_city w h a) = city_geom (spec_city w h area)" by simp
  then have "relationToPolygon h a = relationToPolygon h area"
    by (simp add: spec_city_def)
  with a show "Contains w p (Points (relationToPolygon h area) ! 1)" by simp
next
  assume "Contains w p (Points (relationToPolygon h area) ! 1)"
  with assms show "spec_city w h area \<in> set (map (spec_city w h)
            (filter (\<lambda>a. Contains w p (Points (relationToPolygon h a) ! 1)) as))"
    by simp
qed

lemma spec_district_mem_iff:
  assumes "dist \<in> set ds"
  shows "spec_district h dist \<in> set (map (spec_district h)
            (filter (\<lambda>d. Contains w p (Points (wayToPolygon h d) ! 1)) ds))
         \<longleftrightarrow> Contains w p (Points (wayToPolygon h dist) ! 1)"
proof
  assume "spec_district h dist \<in> set (map (spec_district h)
            (filter (\<lambda>d. Contains w p (Points (wayToPolygon h d) ! 1)) ds))"
  then obtain d where d: "Contains w p (Points (wayToPolygon h d) ! 1)"
    and eq: "spec_district h d = spec_district h dist"
    by auto
  from eq have "district_geom (spec_district h d) = district_geom (spec_district h dist)" by simp
  then have "wayToPolygon h d = wayToPolygon h dist"
    by (simp add: spec_district_def)
  with d show "Contains w p (Points (wayToPolygon h dist) ! 1)" by simp
next
  assume "Contains w p (Points (wayToPolygon h dist) ! 1)"
  with assms show "spec_district h dist \<in> set (map (spec_district h)
            (filter (\<lambda>d. Contains w p (Points (wayToPolygon h d) ! 1)) ds))"
    by simp
qed

lemma district_in_spec_city:
  assumes "dist \<in> set (Districts h)"
  shows "spec_district h dist \<in> set (districts (spec_city w h area))
         \<longleftrightarrow> Contains w (relationToPolygon h area) (Points (wayToPolygon h dist) ! 1)"
  using spec_district_mem_iff [OF assms, of h w "relationToPolygon h area"]
  by (simp add: spec_city_def)

text \<open>
  C1. In a build that completes, a settlement is attached to the country exactly when the
  country's polygon contains the second point of the settlement's ring, and a district is
  attached to a settlement exactly when the settlement's polygon contains the second point
  of the district's ring; attached children keep the accumulator's order.
\<close>

theorem attachment_iff_second_point_inside:
  assumes "areasToPolygons w h cfg i = Inr i'"
  shows "\<forall>c\<in>set (added i i').
     towns c = map (spec_city w h)
        (filter (\<lambda>area. Contains w (country_geom c) (Points (relationToPolygon h area) ! 1))
           (Areas h)) \<and>
     (\<forall>area\<in>set (Areas h).
        spec_city w h area \<in> set (towns c)
        \<longleftrightarrow> Contains w (country_geom c) (Points (relationToPolygon h area) ! 1)) \<and>
     (\<forall>t\<in>set (towns c). \<forall>dist\<in>set (Districts h).
        spec_district h dist \<in> set (districts t)
        \<longleftrightarrow> Contains w (city_geom t) (Points (wayToPolygon h dist) ! 1))"
proof
  fix c
  assume "c \<in> set (added i i')"
  then obtain cn where c: "c = spec_country w h cn"
    by (auto simp: added_eq [OF assms])
  have geom: "country_geom c = relationToPolygon h cn"
    by (simp add: c spec_country_def)
  have t: "towns c = map (spec_city w h)
        (filter (\<lambda>area. Contains w (country_geom c) (Points (relationToPolygon h area) ! 1))
           (Areas h))"
    by (simp add: c spec_country_def)
  have a: "\<forall>area\<in>set (Areas h).
        spec_city w h area \<in> set (towns c)
        \<longleftrightarrow> Contains w (country_geom c) (Points (relationToPolygon h area) ! 1)"
    using spec_city_mem_iff [of _ "Areas h" w h "country_geom c"] by (simp only: t) blast
  have d: "\<forall>t\<in>set (towns c). \<forall>dist\<in>set (Districts h).
        spec_district h dist \<in> set (districts t)
        \<longleftrightarrow> Contains w (city_geom t) (Points (wayToPolygon h dist) ! 1)"
  proof (intro ballI)
    fix t dist
    assume "t \<in> set (towns c)" and dist: "dist \<in> set (Districts h)"
    then obtain area where ta: "t = spec_city w h area"
      by (auto simp: t)
    have "city_geom t = relationToPolygon h area"
      by (simp add: ta spec_city_def)
    then show "spec_district h dist \<in> set (districts t)
        \<longleftrightarrow> Contains w (city_geom t) (Points (wayToPolygon h dist) ! 1)"
      using district_in_spec_city [OF dist, of w area] by (simp add: ta)
  qed
  from t a d show "towns c = map (spec_city w h)
        (filter (\<lambda>area. Contains w (country_geom c) (Points (relationToPolygon h area) ! 1))
           (Areas h)) \<and>
     (\<forall>area\<in>set (Areas h).
        spec_city w h area \<in> set (towns c)
        \<longleftrightarrow> Contains w (country_geom c) (Points (relationToPolygon h area) ! 1)) \<and>
     (\<forall>t\<in>set (towns c). \<forall>dist\<in>set (Districts h).
        spec_district h dist \<in> set (districts t)
        \<longleftrightarrow> Contains w (city_geom t) (Points (wayToPolygon h dist) ! 1))"
    by blast
qed

text \<open>The build over the example accumulator.\<close>

lemma ex_run: "areasToPolygons ex_world ex_handler ex_cfg fresh_Importer = Inr ex_built"
  by code_simp

text \<open>C1 on the example.\<close>

theorem attachment_witness:
  "areasToPolygons ex_world ex_handler ex_cfg fresh_Importer = Inr ex_built \<and>
   towns ex_Freedonia = [ex_Oldtown, ex_Metro] \<and>
   Contains ex_world (country_geom ex_Freedonia) (Points (relationToPolygon ex_handler Metro) ! 1) \<and>
   spec_city ex_world ex_handler Metro \<in> set (towns ex_Freedonia) \<and>
   \<not> Contains ex_world (country_geom ex_Freedonia) (Points (relationToPolygon ex_handler Farside) ! 1) \<and>
   spec_city ex_world ex_handler Farside \<notin> set (towns ex_Freedonia) \<and>
   Contains ex_world (city_geom ex_Metro) (Points (wayToPolygon ex_handler Centre) ! 1) \<and>
   spec_district ex_handler Centre \<in> set (districts ex_Metro) \<and>
   \<not> Contains ex_world (city_geom ex_Metro) (Points (wayToPolygon ex_handler Corner) ! 1) \<and>
   spec_district ex_handler Corner \<notin> set (districts ex_Metro)"
proof -
  have run: "areasToPolygons ex_world ex_handler ex_cfg fresh_Importer = Inr ex_built"
    by (rule ex_run)
  have c: "ex_Freedonia \<in> set (added fresh_Importer ex_built)"
    by (simp add: added_def fresh_Importer_def ex_built_def)
  note T = attachment_iff_second_point_inside [OF run, rule_format, OF c]
  have areas: "Metro \<in> set (Areas ex_handler)" "Farside \<in> set (Areas ex_handler)"
    by (simp_all add: ex_handler_def)
  have dists: "Centre \<in> set (Districts ex_handler)" "Corner \<in> set (Districts ex_handler)"
    by (simp_all add: ex_handler_def)
  have town: "ex_Metro \<in> set (towns ex_Freedonia)"
    by (simp add: ex_Freedonia_def)
  have a1: "Contains ex_world (country_geom ex_Freedonia)
              (Points (relationToPolygon ex_handler Metro) ! 1)"
    by code_simp
  have a2: "\<not> Contains ex_world (country_geom ex_Freedonia)
              (Points (relationToPolygon ex_handler Farside) ! 1)"
    by code_simp
  have d1: "Contains ex_world (city_geom ex_Metro) (Points (wayToPolygon ex_handler Centre) ! 1)"
    by code_simp
  have d2: "\<not> Contains ex_world (city_geom ex_Metro) (Points (wayToPolygon ex_handler Corner) ! 1)"
    by code_simp
  have t: "towns ex_Freedonia = [ex_Oldtown, ex_Metro]"
    by (simp add: ex_Freedonia_def)
  from T areas a1 a2 have m1: "spec_city ex_world ex_handler Metro \<in> set (towns ex_Freedonia)"
    and m2: "spec_city ex_world ex_handler Farside \<notin> set (towns ex_Freedonia)"
    by blast+
  from T town dists d1 d2 have m3: "spec_district ex_handler Centre \<in> set (districts ex_Metro)"
    and m4: "spec_district ex_handler Corner \<notin> set (districts ex_Metro)"
    by blast+
  from run t a1 m1 a2 m2 d1 m3 d2 m4 show ?thesis by blast
qed

text \<open>
  C3, as the code has it. A ring with fewer than two points stops the build: reading its
  second point is out of range. The example has a district path of a single point.
\<close>

theorem degenerate_ring_counterexample:
  "length (Points (wayToPolygon ex_handler_stub Stub)) = 1 \<and>
   areasToPolygons ex_world ex_handler_stub ex_cfg fresh_Importer = Inl index_out_of_range"
  by code_simp

text \<open>
  C3, amended. When every settlement ring and every district ring has at least two
  points (two-point rings included) and the debug export file can be created, the
  build does not fault: it returns an importer.
\<close>

theorem build_completes_on_rings_of_two_points:
  assumes "\<not> Create_fails w (ImportCountry cfg)"
    and "\<forall>dist\<in>set (Districts h). 2 \<le> length (Points (wayToPolygon h dist))"
    and "\<forall>area\<in>set (Areas h). 2 \<le> length (Points (relationToPolygon h area))"
  shows "\<exists>i'. areasToPolygons w h cfg i = Inr i'"
proof -
  have d: "list_all (\<lambda>dist. two_points (wayToPolygon h dist)) (Districts h)"
    using assms(2) by (auto simp: list_all_iff two_points_def)
  have a: "list_all (\<lambda>area. two_points (relationToPolygon h area)) (Areas h)"
    using assms(3) by (auto simp: list_all_iff two_points_def)
  obtain i1 where "countries_loop w h cfg (Countries h)
      (i\<lparr>logged := logged i @ [''started to build country index'']\<rparr>) = Inr i1"
    using countries_loop_ok [OF assms(1) d a] by blast
  then show ?thesis
    by (simp add: areasToPolygons_def Let_def)
qed

text \<open>The amended C3 on an accumulator with a two-point settlement and a two-point district.\<close>

theorem build_completes_witness:
  "\<not> Create_fails ex_world (ImportCountry ex_cfg) \<and>
   length (Points (wayToPolygon ex_handler_thin Segment)) = 2 \<and>
   length (Points (relationToPolygon ex_handler_thin Hamlet)) = 2 \<and>
   (\<exists>i'. areasToPolygons ex_world ex_handler_thin ex_cfg fresh_Importer = Inr i')"
proof -
  have c: "\<not> Create_fails ex_world (ImportCountry ex_cfg)"
    by code_simp
  have d: "\<forall>dist\<in>set (Districts ex_handler_thin).
             2 \<le> length (Points (wayToPolygon ex_handler_thin dist))"
    by code_simp
  have a: "\<forall>area\<in>set (Areas ex_handler_thin).
             2 \<le> length (Points (relationToPolygon ex_handler_thin area))"
    by code_simp
  have s: "length (Points (wayToPolygon ex_handler_thin Segment)) = 2"
    by code_simp
  have h: "length (Points (relationToPolygon ex_handler_thin Hamlet)) = 2"
    by code_simp
  from build_completes_on_rings_of_two_points [OF c d a, of fresh_Importer] c s h
  show ?thesis by blast
qed

text \<open>
  C4, as the code has it. The district loop has no exit on the first match: in the example
  the district Centre is a child of both Oldtown and Metro, and Corner is a child of no
  attached settlement.
\<close>

theorem district_parents_counterexample:
  "map (map city_name \<circ> towns)
     (countries (projr (areasToPolygons ex_world ex_handler ex_cfg fresh_Importer)))
     = [[''Oldtown'', ''Metro'']] \<and>
   map (map (map district_name \<circ> districts) \<circ> towns)
     (countries (projr (areasToPolygons ex_world ex_handler ex_cfg fresh_Importer)))
     = [[[''Centre''], [''Centre'']]]"
  by code_simp

text \<open>
  C4, amended. In a build that completes, the attached settlements that have a district
  as a child are exactly the attached settlements whose polygon contains the second
  point of the district's ring: all of them, in accumulator order, and possibly none.
\<close>

theorem district_attached_to_every_containing_settlement:
  assumes "areasToPolygons w h cfg i = Inr i'"
    and "c \<in> set (added i i')"
    and "dist \<in> set (Districts h)"
  shows "filter (\<lambda>t. spec_district h dist \<in> set (districts t)) (towns c) =
         map (spec_city w h)
           (filter (\<lambda>area. Contains w (country_geom c) (Points (relationToPolygon h area) ! 1) \<and>
                           Contains w (relationToPolygon h area) (Points (wayToPolygon h dist) ! 1))
              (Areas h))"
proof -
  from assms(2) obtain cn where c: "c = spec_country w h cn"
    by (auto simp: added_eq [OF assms(1)])
  have t: "towns c = map (spec_city w h)
        (filter (\<lambda>area. Contains w (country_geom c) (Points (relationToPolygon h area) ! 1))
           (Areas h))"
    by (simp add: c spec_country_def)
  have "filter (\<lambda>t. spec_district h dist \<in> set (districts t)) (towns c) =
        map (spec_city w h)
          (filter (\<lambda>area. spec_district h dist \<in> set (districts (spec_city w h area)))
            (filter (\<lambda>area. Contains w (country_geom c) (Points (relationToPolygon h area) ! 1))
               (Areas h)))"
    by (simp only: t filter_map comp_def)
  also have "\<dots> = map (spec_city w h)
           (filter (\<lambda>area. Contains w (country_geom c) (Points (relationToPolygon h area) ! 1) \<and>
                           Contains w (relationToPolygon h area) (Points (wayToPolygon h dist) ! 1))
              (Areas h))"
    by (simp add: district_in_spec_city [OF assms(3)] conj_commute)
  finally show ?thesis .
qed

text \<open>The amended C4 on the example.\<close>

theorem district_parents_witness:
  "areasToPolygons ex_world ex_handler ex_cfg fresh_Importer = Inr ex_built \<and>
   ex_Freedonia \<in> set (added fresh_Importer ex_built) \<and>
   Centre \<in> set (Districts ex_handler) \<and>
   filter (\<lambda>t. spec_district ex_handler Centre \<in> set (districts t)) (towns ex_Freedonia) =
     [ex_Oldtown, ex_Metro] \<and>
   filter (\<lambda>t. spec_district ex_handler Corner \<in> set (districts t)) (towns ex_Freedonia) = []"
proof -
  have run: "areasToPolygons ex_world ex_handler ex_cfg fresh_Importer = Inr ex_built"
    by (rule ex_run)
  have c: "ex_Freedonia \<in> set (added fresh_Importer ex_built)"
    by (simp add: added_def fresh_Importer_def ex_built_def)
  have d1: "Centre \<in> set (Districts ex_handler)" and d2: "Corner \<in> set (Districts ex_handler)"
    by (simp_all add: ex_handler_def)
  have r1: "map (spec_city ex_world ex_handler)
           (filter (\<lambda>area. Contains ex_world (country_geom ex_Freedonia)
                             (Points (relationToPolygon ex_handler area) ! 1) \<and>
                           Contains ex_world (relationToPolygon ex_handler area)
                             (Points (wayToPolygon ex_handler Centre) ! 1))
              (Areas ex_handler)) = [ex_Oldtown, ex_Metro]"
    by code_simp
  have r2: "map (spec_city ex_world ex_handler)
           (filter (\<lambda>area. Contains ex_world (country_geom ex_Freedonia)
                             (Points (relationToPolygon ex_handler area) ! 1) \<and>
                           Contains ex_world (relationToPolygon ex_handler area)
                             (Points (wayToPolygon ex_handler Corner) ! 1))
              (Areas ex_handler)) = []"
    by code_simp
  from district_attached_to_every_containing_settlement [OF run c d1] r1
    district_attached_to_every_containing_settlement [OF run c d2] r2 run c d1
  show ?thesis by simp
qed

text \<open>
  C6, as the code has it. The path Broken refers to node 77, which the accumulator does
  not hold; its polygon still has three points, the middle one the zero point.
\<close>

theorem unresolved_reference_counterexample:
  "Nodes ex_handler 77 = None \<and>
   Points (wayToPolygon ex_handler Broken) = [pt 3 3, pt 0 0, pt 5 3]"
  by code_simp

text \<open>
  C6, amended. A reference of a path to a node the accumulator does not hold contributes
  the zero point at its position; the assembly is total and the ring keeps one point per
  reference.
\<close>

theorem unresolved_reference_gives_zero_point:
  assumes "k < length (NodeIDs way)" and "Nodes h (NodeIDs way ! k) = None"
  shows "length (Points (wayToPolygon h way)) = length (NodeIDs way) \<and>
         Points (wayToPolygon h way) ! k = \<lparr>lat = 0, lng = 0\<rparr>"
proof -
  have "Points (wayToPolygon h way) = map (node_point h) (NodeIDs way)"
    by (simp add: wayToPolygon_def Points_def NewPolygon_def append_way_nodes_map)
  with assms show ?thesis
    by (simp add: node_point_def Nodes_at_def zero_Node_def NewPoint_def)
qed

text \<open>The amended C6 on the path Broken.\<close>

theorem unresolved_reference_witness:
  "(1::nat) < length (NodeIDs Broken) \<and> Nodes ex_handler (NodeIDs Broken ! 1) = None \<and>
   length (Points (wayToPolygon ex_handler Broken)) = 3 \<and>
   Points (wayToPolygon ex_handler Broken) ! 1 = \<lparr>lat = 0, lng = 0\<rparr>"
proof -
  have k: "(1::nat) < length (NodeIDs Broken)" by (simp add: Broken_def)
  have n: "Nodes ex_handler (NodeIDs Broken ! 1) = None" by code_simp
  have l: "length (NodeIDs Broken) = 3" by (simp add: Broken_def)
  from unresolved_reference_gives_zero_point [OF k n] k n l show ?thesis by simp
qed

text \<open>
  C5 on the example: a relation of a point reference and a two-point path gives the ring
  of the point followed by the path's two points.
\<close>

theorem relationToPolygon_point_then_path:
  "Members Wedge = [pointRef 5, wayRef 104] \<and>
   Points (relationToPolygon ex_handler Wedge) = [pt 2 2, pt 2 6, pt 6 6]"
proof -
  have m: "Members Wedge = [pointRef 5, wayRef 104]" by (simp add: Wedge_def)
  have "concat (map (spec_member_points ex_handler) (Members Wedge)) = [pt 2 2, pt 2 6, pt 6 6]"
    by code_simp
  with relationToPolygon_concat_members [of ex_handler Wedge] m show ?thesis by simp
qed

lemma fs_replay_append: "fs_replay (xs @ ys) m = fs_replay ys (fs_replay xs m)"
  by (induction xs arbitrary: m) simp_all

lemma fs_replay_writes:
  "m f = Some old \<Longrightarrow>
   fs_replay (map (\<lambda>point. File_Write f (export_line w point)) ps) m f
     = Some (old @ concat (map (export_line w) ps))"
  by (induction ps arbitrary: m old) simp_all

lemma fs_replay_export:
  "fs_replay (spec_export w f p) m f = Some (spec_file w p)"
proof -
  have "fs_replay (map (\<lambda>point. File_Write f (export_line w point)) (Points p)) (m(f \<mapsto> [])) f
        = Some ([] @ concat (map (export_line w) (Points p)))"
    by (rule fs_replay_writes) simp
  then show ?thesis
    by (simp add: spec_export_def spec_file_def fs_replay_append)
qed

lemma created_append: "created (xs @ ys) = created xs @ created ys"
  by (induction xs rule: created.induct) simp_all

lemma created_writes: "created (map (\<lambda>point. File_Write f (export_line w point)) ps) = []"
  by (induction ps) simp_all

lemma created_export: "created (spec_export w f p) = [f]"
  by (simp add: spec_export_def created_append created_writes)

lemma created_exports:
  "created (concat (map (\<lambda>c. spec_export w (country_name c) (country_geom c)) cs))
     = map country_name cs"
  by (induction cs) (simp_all add: created_append created_export)

lemma added_names:
  assumes "areasToPolygons w h cfg i = Inr i'"
  shows "map country_name (added i i') = replicate (length (added i i')) (ImportCountry cfg)"
proof -
  have "map country_name (map (spec_country w h) (filter (imported cfg) cns))
        = replicate (length (filter (imported cfg) cns)) (ImportCountry cfg)" for cns
    by (induction cns) (simp_all add: spec_country_def imported_def)
  then show ?thesis
    by (simp add: added_eq [OF assms])
qed

lemma export_trace:
  assumes "areasToPolygons w h cfg i = Inr i'"
  shows "fs_calls i' = fs_calls i @
           concat (map (\<lambda>c. spec_export w (country_name c) (country_geom c)) (added i i'))"
proof -
  have "map (\<lambda>c. spec_export w (country_name c) (country_geom c))
          (map (spec_country w h) (filter (imported cfg) (Countries h))) =
        map (\<lambda>cn. spec_export w (tag (rel_Tags cn) ''name'') (relationToPolygon h cn))
          (filter (imported cfg) (Countries h))"
    by (simp add: spec_country_def)
  then show ?thesis
    using areasToPolygons_Inr(2) [OF assms] by (simp only: added_eq [OF assms])
qed

lemma replay_last_export:
  "cs \<noteq> [] \<Longrightarrow>
   fs_replay (concat (map (\<lambda>c. spec_export w (country_name c) (country_geom c)) cs)) m
     (country_name (last cs)) = Some (spec_file w (country_geom (last cs)))"
proof (induction cs arbitrary: m)
  case Nil
  then show ?case by simp
next
  case (Cons c rest)
  show ?case
  proof (cases "rest = []")
    case True
    then show ?thesis by (simp add: fs_replay_export)
  next
    case False
    with Cons.IH show ?thesis by (simp add: fs_replay_append)
  qed
qed

text \<open>
  C7, amended. In a build that completes, every country built issues one \<open>os.Create\<close>
  of the file named by its name tag, one \<open>Write\<close> per point of its ring, in ring order,
  of the point's longitude, a comma, its latitude and a newline, and the \<open>Close\<close> of
  the file. Every country built bears the configured name, so all of them create the same
  file, and after the run that file holds the lines of the last country built.
\<close>

theorem debug_export_per_country:
  assumes "areasToPolygons w h cfg i = Inr i'"
  shows "fs_calls i' = fs_calls i @
           concat (map (\<lambda>c. spec_export w (country_name c) (country_geom c)) (added i i')) \<and>
         created (fs_calls i') = created (fs_calls i) @ map country_name (added i i') \<and>
         map country_name (added i i') = replicate (length (added i i')) (ImportCountry cfg) \<and>
         (added i i' \<noteq> [] \<longrightarrow>
            fs_replay (fs_calls i') m (ImportCountry cfg)
              = Some (spec_file w (country_geom (last (added i i')))))"
proof -
  note tr = export_trace [OF assms]
  note nm = added_names [OF assms]
  have cr: "created (fs_calls i') = created (fs_calls i) @ map country_name (added i i')"
    by (simp only: tr created_append created_exports)
  have fin: "fs_replay (fs_calls i') m (ImportCountry cfg)
              = Some (spec_file w (country_geom (last (added i i'))))" if ne: "added i i' \<noteq> []"
  proof -
    have "country_name (last (added i i')) = last (map country_name (added i i'))"
      using ne by (simp add: last_map)
    also have "\<dots> = ImportCountry cfg"
      using ne by (subst nm) simp
    finally have l: "country_name (last (added i i')) = ImportCountry cfg" .
    have "fs_replay (fs_calls i') m (country_name (last (added i i')))
            = Some (spec_file w (country_geom (last (added i i'))))"
      by (subst tr) (simp only: fs_replay_append replay_last_export [OF ne])
    then show ?thesis by (simp only: l)
  qed
  from tr cr nm fin show ?thesis by blast
qed

text \<open>
  C7, as the code has it. Two boundary relations bear the imported name: two countries
  are built, one file name is created, and the file is left with the second ring only,
  not the lines of the first.
\<close>

theorem debug_export_counterexample:
  "map country_name
     (countries (projr (areasToPolygons ex_world ex_handler_pair ex_cfg fresh_Importer)))
     = [''Freedonia'', ''Freedonia''] \<and>
   map country_geom
     (countries (projr (areasToPolygons ex_world ex_handler_pair ex_cfg fresh_Importer)))
     = [[pt 0 0, pt 0 8, pt 8 8, pt 8 0], [pt 7 7, pt 7 9, pt 9 9, pt 9 7]] \<and>
   remdups (created (fs_calls
     (projr (areasToPolygons ex_world ex_handler_pair ex_cfg fresh_Importer))))
     = [''Freedonia''] \<and>
   fs_replay (fs_calls (projr (areasToPolygons ex_world ex_handler_pair ex_cfg fresh_Importer)))
     Map.empty ''Freedonia''
     = Some (''7,7'' @ [CHR 0x0A] @ ''9,7'' @ [CHR 0x0A] @ ''9,9'' @ [CHR 0x0A] @ ''7,9'' @ [CHR 0x0A]) \<and>
   spec_file ex_world [pt 0 0, pt 0 8, pt 8 8, pt 8 0]
     = ''0,0'' @ [CHR 0x0A] @ ''8,0'' @ [CHR 0x0A] @ ''8,8'' @ [CHR 0x0A] @ ''0,8'' @ [CHR 0x0A]"
  by code_simp

text \<open>The amended C7 on the same accumulator.\<close>

theorem debug_export_witness:
  "\<not> isl (areasToPolygons ex_world ex_handler_pair ex_cfg fresh_Importer) \<and>
   length (added fresh_Importer
     (projr (areasToPolygons ex_world ex_handler_pair ex_cfg fresh_Importer))) = 2 \<and>
   created (fs_calls (projr (areasToPolygons ex_world ex_handler_pair ex_cfg fresh_Importer)))
     = [''Freedonia'', ''Freedonia''] \<and>
   fs_replay (fs_calls (projr (areasToPolygons ex_world ex_handler_pair ex_cfg fresh_Importer)))
     Map.empty ''Freedonia''
     = Some (''7,7'' @ [CHR 0x0A] @ ''9,7'' @ [CHR 0x0A] @ ''9,9'' @ [CHR 0x0A] @ ''7,9'' @ [CHR 0x0A])"
proof -
  let ?r = "areasToPolygons ex_world ex_handler_pair ex_cfg fresh_Importer"
  have ok: "\<not> isl ?r"
    by code_simp
  then have run: "?r = Inr (projr ?r)"
    by simp
  have n: "length (added fresh_Importer (projr ?r)) = 2"
    by code_simp
  then have ne: "added fresh_Importer (projr ?r) \<noteq> []"
    by auto
  have g: "spec_file ex_world (country_geom (last (added fresh_Importer (projr ?r))))
     = ''7,7'' @ [CHR 0x0A] @ ''9,7'' @ [CHR 0x0A] @ ''9,9'' @ [CHR 0x0A] @ ''7,9'' @ [CHR 0x0A]"
    by code_simp
  have c0: "created (fs_calls (fresh_Importer :: int Importer)) = []"
    by (simp add: fresh_Importer_def)
  have ic: "ImportCountry ex_cfg = ''Freedonia''"
    by (simp add: ex_cfg_def)
  note T = debug_export_per_country [OF run, of Map.empty]
  note T2 = T [THEN conjunct2, THEN conjunct1]
  note T3 = T [THEN conjunct2, THEN conjunct2, THEN conjunct1]
  note T4 = T [THEN conjunct2, THEN conjunct2, THEN conjunct2, rule_format, OF ne]
  have f: "fs_replay (fs_calls (projr ?r)) Map.empty ''Freedonia''
     = Some (''7,7'' @ [CHR 0x0A] @ ''9,7'' @ [CHR 0x0A] @ ''9,9'' @ [CHR 0x0A] @ ''7,9'' @ [CHR 0x0A])"
    using T4 by (simp only: g ic)
  have "map country_name (added fresh_Importer (projr ?r)) = [''Freedonia'', ''Freedonia'']"
    by (subst T3) (simp add: n ic numeral_2_eq_2)
  then have c: "created (fs_calls (projr ?r)) = [''Freedonia'', ''Freedonia'']"
    by (simp add: T2 c0)
  from ok n c f show ?thesis by blast
qed







section \<open>Properties of the indexing pipeline\<close>

lemma goroutine_returns_inv:
  "group_inv i \<Longrightarrow> group_inv (goroutine_returns result f i)"
  by (auto simp: group_inv_def goroutine_returns_def Let_def length_remove1 split: option.splits)

lemma filter_neq_id: "x \<notin> set xs \<Longrightarrow> filter (\<lambda>y. y \<noteq> x) xs = xs"
  by (induction xs) auto

lemma remove1_filter:
  "distinct xs \<Longrightarrow> remove1 x xs = filter (\<lambda>y. y \<noteq> x) xs"
  by (induction xs) (auto simp: filter_neq_id)

lemma goroutine_returns_goroutines:
  "distinct (goroutines i) \<Longrightarrow>
   goroutines (goroutine_returns result f i) = filter (\<lambda>g. g \<noteq> f) (goroutines i)"
  by (auto simp: goroutine_returns_def Let_def remove1_filter filter_neq_id)

lemma returns_in_order_goroutines:
  "group_inv i \<Longrightarrow>
   group_inv (returns_in_order result order i) \<and>
   goroutines (returns_in_order result order i) = filter (\<lambda>g. g \<notin> set order) (goroutines i)"
proof (induction order arbitrary: i)
  case Nil
  then show ?case by simp
next
  case (Cons f rest)
  from Cons.prems have inv: "group_inv (goroutine_returns result f i)"
    by (rule goroutine_returns_inv)
  from Cons.prems have "distinct (goroutines i)"
    by (simp add: group_inv_def)
  then have g: "goroutines (goroutine_returns result f i) = filter (\<lambda>g. g \<noteq> f) (goroutines i)"
    by (rule goroutine_returns_goroutines)
  from Cons.IH [OF inv] g show ?case
    by (auto intro: filter_cong)
qed

lemma errOnce_kept:
  "errOnce (eg i) \<Longrightarrow>
   errOnce (eg (returns_in_order result order i)) \<and>
   err (eg (returns_in_order result order i)) = err (eg i)"
proof (induction order arbitrary: i)
  case Nil
  then show ?case by simp
next
  case (Cons f rest)
  from Cons.prems have "errOnce (eg (goroutine_returns result f i))"
    and "err (eg (goroutine_returns result f i)) = err (eg i)"
    by (auto simp: goroutine_returns_def Let_def split: option.splits)
  with Cons.IH [of "goroutine_returns result f i"] show ?case by simp
qed

lemma first_error_Cons:
  "first_error result (f # rest) =
     (case result f of Some e \<Rightarrow> Some e | None \<Rightarrow> first_error result rest)"
  by (simp add: first_error_def split: option.splits)

lemma returns_in_order_err:
  "\<not> errOnce (eg i) \<Longrightarrow> err (eg i) = None \<Longrightarrow>
   err (eg (returns_in_order result order i)) =
     first_error result (filter (\<lambda>f. f \<in> set (goroutines i)) order)"
proof (induction order arbitrary: i)
  case Nil
  then show ?case by (simp add: first_error_def)
next
  case (Cons f rest)
  show ?case
  proof (cases "f \<in> set (goroutines i)")
    case False
    then have "goroutine_returns result f i = i"
      by (simp add: goroutine_returns_def)
    with Cons False show ?thesis by simp
  next
    case True
    show ?thesis
    proof (cases "result f")
      case (Some e)
      with True Cons.prems have "errOnce (eg (goroutine_returns result f i))"
        and "err (eg (goroutine_returns result f i)) = Some e"
        by (simp_all add: goroutine_returns_def Let_def)
      with errOnce_kept [of "goroutine_returns result f i" result rest]
      have "err (eg (returns_in_order result (f # rest) i)) = Some e"
        by simp
      with True Some show ?thesis
        by (simp add: first_error_Cons)
    next
      case None
      with True Cons.prems have e: "\<not> errOnce (eg (goroutine_returns result f i))"
        "err (eg (goroutine_returns result f i)) = None"
        and g: "goroutines (goroutine_returns result f i) = remove1 f (goroutines i)"
        by (simp_all add: goroutine_returns_def Let_def)
      have m: "(x \<in> set (remove1 f (goroutines i))) = (x \<in> set (goroutines i))"
        if "result x \<noteq> None" for x
      proof (rule in_set_remove1)
        from that None show "x \<noteq> f" by auto
      qed
      have "filter (\<lambda>f. result f \<noteq> None) (filter (\<lambda>x. x \<in> set (remove1 f (goroutines i))) rest)
          = filter (\<lambda>f. result f \<noteq> None) (filter (\<lambda>x. x \<in> set (goroutines i)) rest)"
        unfolding filter_filter by (rule filter_cong) (auto simp: m)
      then have "first_error result (filter (\<lambda>x. x \<in> set (remove1 f (goroutines i))) rest)
          = first_error result (filter (\<lambda>x. x \<in> set (goroutines i)) rest)"
        by (simp add: first_error_def)
      with Cons.IH [OF e] g True None show ?thesis
        by (simp add: first_error_Cons)
    qed
  qed
qed

lemma task_cases: "f = crossRoadsToElastic \<or> f = nodesToElastic \<or> f = waysToElastic"
  by (cases f) simp_all

text \<open>
  C2, amended. After a \<open>Start\<close> that returned no error, \<open>WaitStop\<close> returns exactly
  when all three push tasks have returned. The group then holds the first error reported,
  in the order the tasks returned, and \<open>Wait\<close> returns it to \<open>WaitStop\<close>;
  \<open>WaitStop\<close> itself has no result.
\<close>

theorem WaitStop_returns_after_all_tasks:
  assumes "Start w h cfg parse_err update_err i = Inr (None, i')"
    and "eg i = fresh_Group" and "goroutines i = []"
  shows "(WaitStop (returns_in_order result order i') = Some ()) =
           (crossRoadsToElastic \<in> set order \<and> nodesToElastic \<in> set order \<and>
            waysToElastic \<in> set order) \<and>
         Wait (eg (returns_in_order result order i')) =
           (if crossRoadsToElastic \<in> set order \<and> nodesToElastic \<in> set order \<and>
               waysToElastic \<in> set order
            then Some (first_error result order) else None)"
proof -
  from assms(1) obtain i1 where b: "areasToPolygons w h cfg i = Inr i1"
    and i': "i' = Go waysToElastic (Go nodesToElastic (Go crossRoadsToElastic i1))"
    by (auto simp: Start_def split: option.splits sum.splits)
  from areasToPolygons_Inr(3,4) [OF b] assms(2,3)
  have i1: "eg i1 = fresh_Group" "goroutines i1 = []"
    by simp_all
  have gs: "goroutines i' = [crossRoadsToElastic, nodesToElastic, waysToElastic]"
    and g: "eg i' = \<lparr>wg = 3, errOnce = False, err = None\<rparr>"
    by (simp_all add: i' Go_def i1 fresh_Group_def)
  have inv: "group_inv i'"
    by (simp add: group_inv_def gs g)
  let ?i = "returns_in_order result order i'"
  let ?all = "crossRoadsToElastic \<in> set order \<and> nodesToElastic \<in> set order \<and>
              waysToElastic \<in> set order"
  from returns_in_order_goroutines [OF inv, of result order]
  have "wg (eg ?i) = length (filter (\<lambda>g. g \<notin> set order) (goroutines i'))"
    by (simp add: group_inv_def)
  then have w: "(wg (eg ?i) = 0) = ?all"
    by (auto simp: gs)
  have "filter (\<lambda>f. f \<in> set (goroutines i')) order = order"
    using task_cases by (auto simp: gs intro: filter_True)
  with returns_in_order_err [of i' result order] g
  have e: "err (eg ?i) = first_error result order"
    by simp
  from w e show ?thesis
    by (simp add: WaitStop_def Wait_def)
qed

text \<open>
  C2, as the code has it. With the node push failing, \<open>Wait\<close> returns the error, and
  \<open>WaitStop\<close> returns to its caller what it returns when every push succeeds.
\<close>

theorem WaitStop_counterexample:
  "Wait (eg (returns_in_order ex_result [crossRoadsToElastic, nodesToElastic, waysToElastic]
          (Go waysToElastic (Go nodesToElastic (Go crossRoadsToElastic ex_built)))))
     = Some (Some ''bulk push failed'') \<and>
   WaitStop (returns_in_order ex_result [crossRoadsToElastic, nodesToElastic, waysToElastic]
          (Go waysToElastic (Go nodesToElastic (Go crossRoadsToElastic ex_built))))
     = WaitStop (returns_in_order all_succeed [crossRoadsToElastic, nodesToElastic, waysToElastic]
          (Go waysToElastic (Go nodesToElastic (Go crossRoadsToElastic ex_built)))) \<and>
   WaitStop (returns_in_order ex_result [crossRoadsToElastic, nodesToElastic, waysToElastic]
          (Go waysToElastic (Go nodesToElastic (Go crossRoadsToElastic ex_built))))
     = Some ()"
  by code_simp

text \<open>The amended C2 on the example: blocked while one task runs, returned after all three.\<close>

theorem WaitStop_witness:
  "Start ex_world ex_handler ex_cfg None None fresh_Importer =
     Inr (None, Go waysToElastic (Go nodesToElastic (Go crossRoadsToElastic ex_built))) \<and>
   eg (fresh_Importer :: int Importer) = fresh_Group \<and>
   goroutines (fresh_Importer :: int Importer) = [] \<and>
   WaitStop (returns_in_order ex_result [nodesToElastic, waysToElastic]
       (Go waysToElastic (Go nodesToElastic (Go crossRoadsToElastic ex_built)))) = None \<and>
   WaitStop (returns_in_order ex_result [nodesToElastic, waysToElastic, crossRoadsToElastic]
       (Go waysToElastic (Go nodesToElastic (Go crossRoadsToElastic ex_built)))) = Some () \<and>
   Wait (eg (returns_in_order ex_result [nodesToElastic, waysToElastic, crossRoadsToElastic]
       (Go waysToElastic (Go nodesToElastic (Go crossRoadsToElastic ex_built)))))
     = Some (Some ''bulk push failed'')"
proof -
  let ?s = "Go waysToElastic (Go nodesToElastic (Go crossRoadsToElastic ex_built))"
  have st: "Start ex_world ex_handler ex_cfg None None fresh_Importer = Inr (None, ?s)"
    by (simp add: Start_def ex_run)
  have g: "eg (fresh_Importer :: int Importer) = fresh_Group"
    and r: "goroutines (fresh_Importer :: int Importer) = []"
    by (simp_all add: fresh_Importer_def)
  have f: "first_error ex_result [nodesToElastic, waysToElastic, crossRoadsToElastic]
           = Some ''bulk push failed''"
    by code_simp
  have n: "WaitStop (returns_in_order ex_result [nodesToElastic, waysToElastic] ?s) \<noteq> Some ()"
    using WaitStop_returns_after_all_tasks [OF st g r, of ex_result "[nodesToElastic, waysToElastic]"]
    by simp
  from WaitStop_returns_after_all_tasks
         [OF st g r, of ex_result "[nodesToElastic, waysToElastic, crossRoadsToElastic]"] f n st g r
  show ?thesis by (cases "WaitStop (returns_in_order ex_result [nodesToElastic, waysToElastic] ?s)") simp_all
qed

end
